theory Spec2Isabelle
  imports Main "HOL-Library.Sublist" "HOL-Library.Word"
begin

section \<open>The JID interface used by pyxmpp2.cert\<close>

text \<open>
  \<^verbatim>\<open>cert.py\<close> imports \<^verbatim>\<open>JID\<close> and \<^verbatim>\<open>are_domains_equal\<close> from \<^verbatim>\<open>pyxmpp2.jid\<close>
  and \<^verbatim>\<open>JIDError\<close> from \<^verbatim>\<open>pyxmpp2.exceptions\<close>. The functions of \<^verbatim>\<open>cert.py\<close>
  take that module as a parameter: the constructor on a string (\<open>None\<close> when it raises
  \<^verbatim>\<open>JIDError\<close>, which \<^verbatim>\<open>cert.py\<close> catches both as \<^verbatim>\<open>JIDError\<close> and as
  \<^verbatim>\<open>ValueError\<close>), the accessors \<^verbatim>\<open>local\<close> and \<^verbatim>\<open>domain\<close>, and the domain
  equality predicate. A value of type \<open>'j\<close> is a JID object; \<^verbatim>\<open>==\<close> and \<^verbatim>\<open>in\<close> on
  JID objects are equality of these values.
\<close>

record 'j jid_module =
  JID :: "string \<Rightarrow> 'j option"
  jid_local :: "'j \<Rightarrow> string option"
  jid_domain :: "'j \<Rightarrow> string"
  are_domains_equal :: "string \<Rightarrow> string \<Rightarrow> bool"

datatype error = JIDError | NameError | PyAsn1Error | UnicodeError | ValueError

section \<open>CertificateData\<close>

record datetime =
  dt_year :: nat
  dt_month :: nat
  dt_day :: nat
  dt_hour :: nat
  dt_minute :: nat
  dt_second :: nat

record CertificateData =
  validated :: bool
  subject_name :: "(string \<times> string) list list option"
  not_after :: "datetime option"
  common_names :: "string list option"
  alt_names :: "string \<rightharpoonup> string list"

text \<open>\<^verbatim>\<open>CertificateData.__init__\<close>.\<close>

definition CertificateData_init :: CertificateData where
  "CertificateData_init =
     \<lparr> validated = False, subject_name = None, not_after = None,
       common_names = None, alt_names = Map.empty \<rparr>"

text \<open>\<^verbatim>\<open>key in self.alt_names\<close> and \<^verbatim>\<open>self.alt_names.get(key, [])\<close>.\<close>

definition has_key :: "(string \<rightharpoonup> string list) \<Rightarrow> string \<Rightarrow> bool" where
  "has_key m k = (m k \<noteq> None)"

definition alt_get :: "(string \<rightharpoonup> string list) \<Rightarrow> string \<Rightarrow> string list" where
  "alt_get m k = (case m k of None \<Rightarrow> [] | Some names \<Rightarrow> names)"

subsection \<open>get_jids\<close>

text \<open>
  The loop of \<^verbatim>\<open>get_jids\<close> over \<^verbatim>\<open>addrs\<close>, with the list \<^verbatim>\<open>result\<close> as
  accumulator; a \<^verbatim>\<open>JIDError\<close> is logged and the address skipped.
\<close>

fun get_jids_loop :: "(string \<Rightarrow> 'j option) \<Rightarrow> string list \<Rightarrow> 'j list \<Rightarrow> 'j list" where
  "get_jids_loop parse [] result = result"
| "get_jids_loop parse (addr # addrs) result =
     (case parse addr of
        None \<Rightarrow> get_jids_loop parse addrs result
      | Some jid \<Rightarrow>
          (if jid \<notin> set result then get_jids_loop parse addrs (result @ [jid])
           else get_jids_loop parse addrs result))"

definition get_jids :: "'j jid_module \<Rightarrow> CertificateData \<Rightarrow> 'j list" where
  "get_jids M c =
     (if has_key (alt_names c) ''XmppAddr'' \<or> has_key (alt_names c) ''DNS''
      then get_jids_loop (JID M)
             (alt_get (alt_names c) ''XmppAddr'' @ alt_get (alt_names c) ''DNS'') []
      else (case common_names c of
              None \<Rightarrow> []
            | Some cns \<Rightarrow>
                (if cns \<noteq> []
                 then get_jids_loop (JID M)
                        (filter (\<lambda>addr. CHR ''@'' \<notin> set addr \<and> CHR ''/'' \<notin> set addr) cns) []
                 else [])))"

subsection \<open>verify_server\<close>

text \<open>The loop of \<^verbatim>\<open>verify_jid_against_common_name\<close>.\<close>

fun common_name_loop :: "(string \<Rightarrow> 'j option) \<Rightarrow> 'j \<Rightarrow> string list \<Rightarrow> bool" where
  "common_name_loop parse jid [] = False"
| "common_name_loop parse jid (name # names) =
     (case parse name of
        None \<Rightarrow> common_name_loop parse jid names
      | Some cn_jid \<Rightarrow> (if jid = cn_jid then True else common_name_loop parse jid names))"

definition verify_jid_against_common_name ::
  "'j jid_module \<Rightarrow> CertificateData \<Rightarrow> 'j \<Rightarrow> bool" where
  "verify_jid_against_common_name M c jid =
     (case common_names c of
        None \<Rightarrow> False
      | Some cns \<Rightarrow> (if cns = [] then False else common_name_loop (JID M) jid cns))"

text \<open>
  The loop of \<^verbatim>\<open>verify_jid_against_srv_name\<close>: \<^verbatim>\<open>srv.startswith(srv_prefix)\<close> is
  \<open>prefix\<close>, the slice \<^verbatim>\<open>srv[srv_prefix_l:]\<close> is \<open>drop\<close>.
\<close>

fun srv_loop :: "(string \<Rightarrow> 'j option) \<Rightarrow> 'j \<Rightarrow> string \<Rightarrow> string list \<Rightarrow> bool" where
  "srv_loop parse jid srv_prefix [] = False"
| "srv_loop parse jid srv_prefix (srv # srvs) =
     (if \<not> prefix srv_prefix srv then srv_loop parse jid srv_prefix srvs
      else (case parse (drop (length srv_prefix) srv) of
              None \<Rightarrow> srv_loop parse jid srv_prefix srvs
            | Some srv_jid \<Rightarrow>
                (if srv_jid = jid then True else srv_loop parse jid srv_prefix srvs)))"

definition verify_jid_against_srv_name ::
  "'j jid_module \<Rightarrow> CertificateData \<Rightarrow> 'j \<Rightarrow> string \<Rightarrow> bool" where
  "verify_jid_against_srv_name M c jid srv_type =
     srv_loop (JID M) jid (''_'' @ srv_type @ ''.'') (alt_get (alt_names c) ''SRV'')"

text \<open>
  The loop of \<^verbatim>\<open>verify_server\<close> over the DNS and XmppAddr names. The local variable
  \<^verbatim>\<open>jid\<close> is assigned by each successful \<^verbatim>\<open>JID(name)\<close> and is read after the loop,
  so the loop returns it with the flag "returned True": \<open>None\<close> is the unbound variable.
\<close>

fun server_scan ::
  "(string \<Rightarrow> 'j option) \<Rightarrow> 'j \<Rightarrow> string list \<Rightarrow> 'j option \<Rightarrow> bool \<times> 'j option" where
  "server_scan parse server_jid [] jid = (False, jid)"
| "server_scan parse server_jid (name # names) jid =
     (case parse name of
        None \<Rightarrow> server_scan parse server_jid names jid
      | Some j \<Rightarrow>
          (if j = server_jid then (True, Some j)
           else server_scan parse server_jid names (Some j)))"

definition verify_server ::
  "'j jid_module \<Rightarrow> CertificateData \<Rightarrow> string \<Rightarrow> string \<Rightarrow> error + bool" where
  "verify_server M c server_name srv_type =
     (case JID M server_name of
        None \<Rightarrow> Inl JIDError
      | Some server_jid \<Rightarrow>
          (if \<not> has_key (alt_names c) ''XmppAddr'' \<and> \<not> has_key (alt_names c) ''DNS''
              \<and> \<not> has_key (alt_names c) ''SRV''
           then Inr (verify_jid_against_common_name M c server_jid)
           else (case server_scan (JID M) server_jid
                        (alt_get (alt_names c) ''DNS'' @ alt_get (alt_names c) ''XmppAddr'')
                        None of
                   (True, _) \<Rightarrow> Inr True
                 | (False, jid) \<Rightarrow>
                     (if srv_type \<noteq> []
                      then (case jid of
                              None \<Rightarrow> Inl NameError
                            | Some j \<Rightarrow> Inr (verify_jid_against_srv_name M c j srv_type))
                      else Inr False))))"

subsection \<open>verify_client\<close>

text \<open>
  \<^verbatim>\<open>verify_client\<close> returns \<^verbatim>\<open>False\<close>, \<^verbatim>\<open>None\<close> or a JID. The truth value of
  \<^verbatim>\<open>jid.local\<close> is that of an optional string.
\<close>

datatype 'j client_result = Result_False | Result_None | Result_JID 'j

definition truthy :: "string option \<Rightarrow> bool" where
  "truthy s = (case s of None \<Rightarrow> False | Some t \<Rightarrow> t \<noteq> [])"

fun domain_loop :: "'j jid_module \<Rightarrow> 'j \<Rightarrow> string list \<Rightarrow> bool" where
  "domain_loop M jid [] = False"
| "domain_loop M jid (d # ds) =
     (if are_domains_equal M (jid_domain M jid) d then True else domain_loop M jid ds)"

fun client_loop :: "'j jid_module \<Rightarrow> 'j list \<Rightarrow> string list \<Rightarrow> 'j client_result" where
  "client_loop M [] domains = Result_None"
| "client_loop M (jid # jids) domains =
     (if domain_loop M jid domains then Result_JID jid else client_loop M jids domains)"

definition verify_client ::
  "'j jid_module \<Rightarrow> CertificateData \<Rightarrow> 'j option \<Rightarrow> string list option \<Rightarrow> 'j client_result" where
  "verify_client M c client_jid domains =
     (let jids = filter (\<lambda>jid. truthy (jid_local M jid)) (get_jids M c) in
      case jids of
        [] \<Rightarrow> Result_False
      | first # _ \<Rightarrow>
          (case client_jid of
             Some cj \<Rightarrow>
               (if cj \<in> set jids then Result_JID cj
                else (case domains of
                        None \<Rightarrow> Result_JID first
                      | Some ds \<Rightarrow> client_loop M jids ds))
           | None \<Rightarrow>
               (case domains of
                  None \<Rightarrow> Result_JID first
                | Some ds \<Rightarrow> client_loop M jids ds)))"

section \<open>The full ASN.1 decoder\<close>

text \<open>
  The DER decoder (\<^verbatim>\<open>pyasn1\<close>), the byte decoders of Python (\<^verbatim>\<open>bytes.decode\<close>) and
  \<^verbatim>\<open>datetime.strptime\<close> are libraries outside the repository: they are the fields of a
  codec passed to the decoding functions, with \<open>None\<close> where the library raises
  (\<^verbatim>\<open>PyAsn1Error\<close>, \<^verbatim>\<open>UnicodeError\<close>, \<^verbatim>\<open>ValueError\<close>). The functions below work
  on the decoded ASN.1 tree as \<^verbatim>\<open>cert.py\<close> walks it. The methods
  \<^verbatim>\<open>_decode_subject\<close>, \<^verbatim>\<open>_decode_validity\<close>, \<^verbatim>\<open>_decode_alt_names\<close> and the function
  \<^verbatim>\<open>_decode_asn1_string\<close> lose their leading underscore.
\<close>

type_synonym octets = "8 word list"

type_synonym oid = "nat list"

datatype string_type =
  BMPString | IA5String | UTF8String | PrintableString | TeletexString | UniversalString

type_synonym asn1_string = "string_type \<times> octets"

type_synonym nameval = "oid \<times> octets"

type_synonym Name = "nameval list list list"

datatype GeneralName =
    otherName oid octets
  | rfc822Name asn1_string
  | dNSName asn1_string
  | x400Address octets
  | directoryName Name
  | ediPartyName octets
  | uniformResourceIdentifier asn1_string
  | iPAddress octets
  | registeredID oid

datatype Time = utcTime string | generalTime string

datatype extn_value = Any_value octets | OctetString_value octets

record Extension =
  extnID :: oid
  extnValue :: extn_value

record TBSCertificate =
  subject :: Name
  notAfter :: Time
  extensions :: "Extension list"

record asn1_codec =
  decode_utf8 :: "octets \<Rightarrow> string option"
  decode_utf16_be :: "octets \<Rightarrow> string option"
  der_Certificate :: "octets \<Rightarrow> TBSCertificate option"
  der_DirectoryString :: "octets \<Rightarrow> asn1_string option"
  der_UTF8String :: "octets \<Rightarrow> octets option"
  der_IA5String :: "octets \<Rightarrow> octets option"
  der_OctetString :: "octets \<Rightarrow> octets option"
  der_GeneralNames :: "octets \<Rightarrow> GeneralName list option"
  strptime :: "string \<Rightarrow> string \<Rightarrow> datetime option"

definition DN_OIDS :: "oid \<rightharpoonup> string" where
  "DN_OIDS = map_of
     [ ([2, 5, 4, 41], ''Name''),
       ([2, 5, 4, 4], ''Surname''),
       ([2, 5, 4, 42], ''GivenName''),
       ([2, 5, 4, 43], ''Initials''),
       ([2, 5, 4, 3], ''CommonName''),
       ([2, 5, 4, 7], ''LocalityName''),
       ([2, 5, 4, 8], ''StateOrProvinceName''),
       ([2, 5, 4, 10], ''OrganizationName''),
       ([2, 5, 4, 11], ''OrganizationalUnitName''),
       ([2, 5, 4, 12], ''Title''),
       ([2, 5, 4, 6], ''CountryName'') ]"

definition XMPPADDR_OID :: oid where
  "XMPPADDR_OID = [1, 3, 6, 1, 5, 5, 7, 8, 5]"

definition SRVNAME_OID :: oid where
  "SRVNAME_OID = [1, 3, 6, 1, 5, 5, 7, 8, 7]"

definition SUBJECT_ALT_NAME_OID :: oid where
  "SUBJECT_ALT_NAME_OID = [2, 5, 29, 17]"

definition decode_asn1_string :: "asn1_codec \<Rightarrow> asn1_string \<Rightarrow> string option" where
  "decode_asn1_string codec data =
     (if fst data = BMPString then decode_utf16_be codec (snd data)
      else decode_utf8 codec (snd data))"

subsection \<open>The subject\<close>

text \<open>
  The innermost loop of \<^verbatim>\<open>_decode_subject\<close>, over the attributes of one RDN: the state
  is \<^verbatim>\<open>self.common_names\<close> and \<^verbatim>\<open>rdnss_list\<close>. Only \<^verbatim>\<open>UnicodeError\<close> is caught;
  a value that is no DirectoryString raises out of the loop.
\<close>

fun nameval_loop ::
  "asn1_codec \<Rightarrow> nameval list \<Rightarrow> string list \<Rightarrow> (string \<times> string) list
     \<Rightarrow> error + (string list \<times> (string \<times> string) list)" where
  "nameval_loop codec [] cns rdnss_list = Inr (cns, rdnss_list)"
| "nameval_loop codec (nameval # rest) cns rdnss_list =
     (case DN_OIDS (fst nameval) of
        None \<Rightarrow> nameval_loop codec rest cns rdnss_list
      | Some val_type \<Rightarrow>
          (case der_DirectoryString codec (snd nameval) of
             None \<Rightarrow> Inl PyAsn1Error
           | Some v \<Rightarrow>
               (case decode_asn1_string codec v of
                  None \<Rightarrow> nameval_loop codec rest cns rdnss_list
                | Some text \<Rightarrow>
                    nameval_loop codec rest
                      (if val_type = ''CommonName'' then cns @ [text] else cns)
                      (rdnss_list @ [(val_type, text)]))))"

text \<open>The loop over the RDNs of one sequence, and the outer loop over the subject; \<open>sname\<close>
  is the local list \<^verbatim>\<open>subject_name\<close>.\<close>

fun rdns_loop ::
  "asn1_codec \<Rightarrow> nameval list list \<Rightarrow> string list \<Rightarrow> (string \<times> string) list list
     \<Rightarrow> error + (string list \<times> (string \<times> string) list list)" where
  "rdns_loop codec [] cns sname = Inr (cns, sname)"
| "rdns_loop codec (rdns # rest) cns sname =
     (case nameval_loop codec rdns cns [] of
        Inl e \<Rightarrow> Inl e
      | Inr (cns', rdnss_list) \<Rightarrow> rdns_loop codec rest cns' (sname @ [rdnss_list]))"

fun rdnss_loop ::
  "asn1_codec \<Rightarrow> Name \<Rightarrow> string list \<Rightarrow> (string \<times> string) list list
     \<Rightarrow> error + (string list \<times> (string \<times> string) list list)" where
  "rdnss_loop codec [] cns sname = Inr (cns, sname)"
| "rdnss_loop codec (rdnss # rest) cns sname =
     (case rdns_loop codec rdnss cns sname of
        Inl e \<Rightarrow> Inl e
      | Inr (cns', sname') \<Rightarrow> rdnss_loop codec rest cns' sname')"

definition decode_subject ::
  "asn1_codec \<Rightarrow> Name \<Rightarrow> CertificateData \<Rightarrow> error + CertificateData" where
  "decode_subject codec subj c =
     (case rdnss_loop codec subj [] [] of
        Inl e \<Rightarrow> Inl e
      | Inr (cns, sn) \<Rightarrow> Inr (c\<lparr> common_names := Some cns, subject_name := Some sn \<rparr>))"

subsection \<open>The validity\<close>

text \<open>
  \<^verbatim>\<open>_decode_validity\<close> converts the chosen time to \<^verbatim>\<open>str\<close> before it tests
  \<^verbatim>\<open>isinstance(not_after, GeneralizedTime)\<close>; a \<^verbatim>\<open>str\<close> is no GeneralizedTime, so the
  two-digit-year format is the one used. It also resets \<^verbatim>\<open>alt_names\<close>.
\<close>

definition decode_validity ::
  "asn1_codec \<Rightarrow> Time \<Rightarrow> CertificateData \<Rightarrow> error + CertificateData" where
  "decode_validity codec t c =
     (let s = (case t of utcTime u \<Rightarrow> u | generalTime g \<Rightarrow> g) in
      case strptime codec s ''%y%m%d%H%M%SZ'' of
        None \<Rightarrow> Inl ValueError
      | Some d \<Rightarrow> Inr (c\<lparr> not_after := Some d, alt_names := Map.empty \<rparr>))"

subsection \<open>The SubjectAltName extension\<close>

text \<open>
  The body of the loop of \<^verbatim>\<open>_decode_alt_names\<close> up to the final
  \<^verbatim>\<open>self.alt_names[key].append(value)\<close>: it gives the key and the value, or \<open>None\<close>
  where the source logs and continues.
\<close>

definition alt_name_entry ::
  "asn1_codec \<Rightarrow> GeneralName \<Rightarrow> error + (string \<times> string) option" where
  "alt_name_entry codec alt_name =
     (case alt_name of
        dNSName component \<Rightarrow>
          (case decode_asn1_string codec component of
             None \<Rightarrow> Inl UnicodeError
           | Some v \<Rightarrow> Inr (Some (''DNS'', v)))
      | uniformResourceIdentifier component \<Rightarrow>
          (case decode_asn1_string codec component of
             None \<Rightarrow> Inl UnicodeError
           | Some v \<Rightarrow> Inr (Some (''URI'', v)))
      | otherName oid val \<Rightarrow>
          (if oid = XMPPADDR_OID
           then (case der_UTF8String codec val of
                   None \<Rightarrow> Inl PyAsn1Error
                 | Some u \<Rightarrow>
                     (case decode_asn1_string codec (UTF8String, u) of
                        None \<Rightarrow> Inl UnicodeError
                      | Some v \<Rightarrow> Inr (Some (''XmppAddr'', v))))
           else if oid = SRVNAME_OID
           then (case der_IA5String codec val of
                   None \<Rightarrow> Inl PyAsn1Error
                 | Some u \<Rightarrow>
                     (case decode_asn1_string codec (IA5String, u) of
                        None \<Rightarrow> Inl UnicodeError
                      | Some v \<Rightarrow> Inr (Some (''SRVName'', v))))
           else Inr None)
      | _ \<Rightarrow> Inr None)"

text \<open>\<^verbatim>\<open>self.alt_names[key].append(value)\<close> on a \<^verbatim>\<open>defaultdict(list)\<close>.\<close>

definition append_name ::
  "(string \<rightharpoonup> string list) \<Rightarrow> string \<Rightarrow> string \<Rightarrow> (string \<rightharpoonup> string list)" where
  "append_name m key v = m(key \<mapsto> alt_get m key @ [v])"

fun decode_alt_names ::
  "asn1_codec \<Rightarrow> GeneralName list \<Rightarrow> (string \<rightharpoonup> string list)
     \<Rightarrow> error + (string \<rightharpoonup> string list)" where
  "decode_alt_names codec [] m = Inr m"
| "decode_alt_names codec (alt_name # rest) m =
     (case alt_name_entry codec alt_name of
        Inl e \<Rightarrow> Inl e
      | Inr None \<Rightarrow> decode_alt_names codec rest m
      | Inr (Some (key, v)) \<Rightarrow> decode_alt_names codec rest (append_name m key v))"

subsection \<open>from_der_data and from_ssl_socket\<close>

text \<open>
  The loop of \<^verbatim>\<open>from_der_data\<close> over the extensions; a certificate without the
  optional field has the empty list, for which \<^verbatim>\<open>if extensions:\<close> skips the loop as well.
\<close>

fun extension_loop ::
  "asn1_codec \<Rightarrow> Extension list \<Rightarrow> CertificateData \<Rightarrow> error + CertificateData" where
  "extension_loop codec [] c = Inr c"
| "extension_loop codec (extension # rest) c =
     (if extnID extension \<noteq> SUBJECT_ALT_NAME_OID then extension_loop codec rest c
      else (case (case extnValue extension of
                    Any_value a \<Rightarrow> der_OctetString codec a
                  | OctetString_value v \<Rightarrow> Some v) of
              None \<Rightarrow> Inl PyAsn1Error
            | Some val \<Rightarrow>
                (case der_GeneralNames codec val of
                   None \<Rightarrow> Inl PyAsn1Error
                 | Some names \<Rightarrow>
                     (case decode_alt_names codec names (alt_names c) of
                        Inl e \<Rightarrow> Inl e
                      | Inr m \<Rightarrow> extension_loop codec rest (c\<lparr> alt_names := m \<rparr>)))))"

definition from_der_data :: "asn1_codec \<Rightarrow> octets \<Rightarrow> error + CertificateData" where
  "from_der_data codec data =
     (case der_Certificate codec data of
        None \<Rightarrow> Inl PyAsn1Error
      | Some tbs_cert \<Rightarrow>
          (case decode_subject codec (subject tbs_cert) CertificateData_init of
             Inl e \<Rightarrow> Inl e
           | Inr c1 \<Rightarrow>
               (case decode_validity codec (notAfter tbs_cert) c1 of
                  Inl e \<Rightarrow> Inl e
                | Inr c2 \<Rightarrow> extension_loop codec (extensions tbs_cert) c2)))"

text \<open>
  The TLS socket as \<^verbatim>\<open>ASN1CertificateData.from_ssl_socket\<close> reads it:
  \<^verbatim>\<open>getpeercert(True)\<close> gives the DER bytes (\<open>None\<close> when it returns \<^verbatim>\<open>None\<close> or the
  method is missing), and \<^verbatim>\<open>bool(getpeercert())\<close> tells whether the chain was
  validated.
\<close>

record ssl_socket =
  peercert_der :: "octets option"
  peercert_validated :: bool

definition from_ssl_socket :: "asn1_codec \<Rightarrow> ssl_socket \<Rightarrow> error + CertificateData" where
  "from_ssl_socket codec sock =
     (case peercert_der sock of
        None \<Rightarrow> Inr CertificateData_init
      | Some data \<Rightarrow>
          (if data = [] then Inr CertificateData_init
           else (case from_der_data codec data of
                   Inl e \<Rightarrow> Inl e
                 | Inr result \<Rightarrow> Inr (result\<lparr> validated := peercert_validated sock \<rparr>))))"

section \<open>A small JID module for concrete runs\<close>

text \<open>
  Modelled from the spec: the module \<^verbatim>\<open>pyxmpp2.jid\<close> is not among the sources. The spec
  describes a JID as the form \<^verbatim>\<open>local@domain/resource\<close>, a constructor from a string
  that fails on malformed input, accessors for the parts, and a case-insensitive
  domain equality. This model splits at the first \<^verbatim>\<open>/\<close> and then at the first
  \<^verbatim>\<open>@\<close>, and rejects an empty domain, local part or resource; it does no string
  preparation and compares domains as they are, so it is used on lower-case ASCII
  names only, where the two agree.
\<close>

type_synonym simple_jid = "string option \<times> string \<times> string option"

definition split_once :: "char \<Rightarrow> string \<Rightarrow> string \<times> string option" where
  "split_once sep s =
     (takeWhile (\<lambda>ch. ch \<noteq> sep) s,
      case dropWhile (\<lambda>ch. ch \<noteq> sep) s of [] \<Rightarrow> None | _ # rest \<Rightarrow> Some rest)"

definition simple_JID :: "string \<Rightarrow> simple_jid option" where
  "simple_JID s =
     (case split_once CHR ''/'' s of
        (bare, res) \<Rightarrow>
          (case split_once CHR ''@'' bare of
             (part, None) \<Rightarrow>
               (if part = [] \<or> res = Some [] then None else Some (None, part, res))
           | (part, Some d) \<Rightarrow>
               (if d = [] \<or> part = [] \<or> res = Some [] then None
                else Some (Some part, d, res))))"

definition simple_jid_module :: "simple_jid jid_module" where
  "simple_jid_module =
     \<lparr> JID = simple_JID,
       jid_local = fst,
       jid_domain = (\<lambda>j. fst (snd j)),
       are_domains_equal = (=) \<rparr>"

section \<open>A small codec for concrete runs\<close>

text \<open>
  \<^verbatim>\<open>pyasn1\<close> and the codecs of Python are libraries; for runs on concrete input this
  stand-in reads a short-form DER value (one tag octet, one length octet, the contents),
  decodes ASCII octets as UTF-8 and ASCII code units as UTF-16-BE, and rejects every
  other octet string. It agrees with the libraries on the inputs used below: ASCII
  text, and the octet \<open>0xFF\<close>, which no UTF-8 text contains.
\<close>

definition toy_der :: "octets \<Rightarrow> (8 word \<times> octets) option" where
  "toy_der bs =
     (case bs of
        tg # len # content \<Rightarrow> (if unat len = length content then Some (tg, content) else None)
      | _ \<Rightarrow> None)"

definition toy_utf8 :: "octets \<Rightarrow> string option" where
  "toy_utf8 bs = (if list_all (\<lambda>b. b < 128) bs then Some (map (\<lambda>b. char_of (unat b)) bs) else None)"

fun toy_utf16_be :: "octets \<Rightarrow> string option" where
  "toy_utf16_be [] = Some []"
| "toy_utf16_be [b] = None"
| "toy_utf16_be (hi # lo # rest) =
     (if hi = 0 \<and> lo < 128
      then map_option ((#) (char_of (unat lo))) (toy_utf16_be rest)
      else None)"

definition toy_codec :: asn1_codec where
  "toy_codec =
     \<lparr> decode_utf8 = toy_utf8,
       decode_utf16_be = toy_utf16_be,
       der_Certificate = (\<lambda>_. None),
       der_DirectoryString = (\<lambda>bs. case toy_der bs of
           None \<Rightarrow> None
         | Some (tg, content) \<Rightarrow>
             (if tg = 12 then Some (UTF8String, content)
              else if tg = 19 then Some (PrintableString, content)
              else if tg = 20 then Some (TeletexString, content)
              else if tg = 28 then Some (UniversalString, content)
              else if tg = 30 then Some (BMPString, content)
              else None)),
       der_UTF8String = (\<lambda>bs. case toy_der bs of
           None \<Rightarrow> None | Some (tg, content) \<Rightarrow> (if tg = 12 then Some content else None)),
       der_IA5String = (\<lambda>bs. case toy_der bs of
           None \<Rightarrow> None | Some (tg, content) \<Rightarrow> (if tg = 22 then Some content else None)),
       der_OctetString = (\<lambda>bs. case toy_der bs of
           None \<Rightarrow> None | Some (tg, content) \<Rightarrow> (if tg = 4 then Some content else None)),
       der_GeneralNames = (\<lambda>_. None),
       strptime = (\<lambda>_ _. None) \<rparr>"

section \<open>Example certificates\<close>

definition cert_A :: CertificateData where
  "cert_A = CertificateData_init
     \<lparr> alt_names := [''XmppAddr'' \<mapsto> [''user@example.com'', ''bad@'', ''user@example.com''],
                     ''DNS'' \<mapsto> [''example.com'']] \<rparr>"

definition cert_common_name :: CertificateData where
  "cert_common_name = CertificateData_init \<lparr> common_names := Some [''example.com''] \<rparr>"

definition cert_srv_only :: CertificateData where
  "cert_srv_only = CertificateData_init
     \<lparr> alt_names := [''SRV'' \<mapsto> [''_xmpp-client.example.com'']] \<rparr>"

definition cert_dns_srv :: CertificateData where
  "cert_dns_srv = CertificateData_init
     \<lparr> alt_names := [''DNS'' \<mapsto> [''other.example''],
                     ''SRV'' \<mapsto> [''_xmpp-client.example.com'']] \<rparr>"

definition cert_empty_dns :: CertificateData where
  "cert_empty_dns = CertificateData_init \<lparr> alt_names := [''DNS'' \<mapsto> []] \<rparr>"

definition cert_two_clients :: CertificateData where
  "cert_two_clients = CertificateData_init
     \<lparr> alt_names := [''XmppAddr'' \<mapsto> [''b@x'', ''a@x'']] \<rparr>"

definition cert_mixed :: CertificateData where
  "cert_mixed = CertificateData_init
     \<lparr> alt_names := [''XmppAddr'' \<mapsto> [''b@y'', ''a@x''], ''DNS'' \<mapsto> [''x'']] \<rparr>"

definition cert_other_srv :: CertificateData where
  "cert_other_srv = CertificateData_init
     \<lparr> alt_names := [''DNS'' \<mapsto> [''other.example''],
                     ''SRV'' \<mapsto> [''_xmpp-client.other.example'']] \<rparr>"

text \<open>A TLS socket on which the peer presented no certificate.\<close>

definition no_certificate_socket :: ssl_socket where
  "no_certificate_socket = \<lparr> peercert_der = None, peercert_validated = False \<rparr>"

definition subject_example :: Name where
  "subject_example =
     [[ [([2, 5, 4, 6], [19, 2, 0x50, 0x4C])],
        [([1, 2, 840, 113549, 1, 9, 1], [22, 3, 0x61, 0x40, 0x62]),
         ([2, 5, 4, 10], [12, 1, 0xFF]),
         ([2, 5, 4, 3], [12, 3, 0x61, 0x2E, 0x62])] ]]"

text \<open>
  A subject with an e-mail address and a CommonName, both encoded as IA5String, and
  certificates with this subject and with the subject above.
\<close>

definition subject_ia5 :: Name where
  "subject_ia5 =
     [[ [([1, 2, 840, 113549, 1, 9, 1], [22, 3, 0x61, 0x40, 0x62]),
         ([2, 5, 4, 3], [22, 3, 0x61, 0x2E, 0x62])] ]]"

definition certificate_ia5 :: TBSCertificate where
  "certificate_ia5 =
     \<lparr> subject = subject_ia5, notAfter = utcTime ''300101000000Z'', extensions = [] \<rparr>"

definition certificate_example :: TBSCertificate where
  "certificate_example =
     \<lparr> subject = subject_example, notAfter = utcTime ''300101000000Z'', extensions = [] \<rparr>"

text \<open>
  The codec for the two example certificates: it reads the octet \<open>0x30\<close> as the first
  and \<open>0x31\<close> as the second, and the one time string they hold.
\<close>

definition example_codec :: asn1_codec where
  "example_codec = toy_codec
     \<lparr> der_Certificate :=
         (\<lambda>data. if data = [0x30] then Some certificate_example
                 else if data = [0x31] then Some certificate_ia5
                 else None),
       strptime :=
         (\<lambda>s fmt. if s = ''300101000000Z'' \<and> fmt = ''%y%m%d%H%M%SZ''
                  then Some \<lparr> dt_year = 2030, dt_month = 1, dt_day = 1,
                              dt_hour = 0, dt_minute = 0, dt_second = 0 \<rparr>
                  else None) \<rparr>"


section \<open>Definitions that follow the specification\<close>

text \<open>
  The pairs the specification keeps of one RDN: the attributes whose OID is in the
  table and whose value decodes, in their order; and the values among them whose
  attribute is CommonName.
\<close>

definition recognized_pairs :: "asn1_codec \<Rightarrow> nameval list \<Rightarrow> (string \<times> string) list" where
  "recognized_pairs codec rdns =
     List.map_filter
       (\<lambda>nameval. case DN_OIDS (fst nameval) of
                     None \<Rightarrow> None
                   | Some val_type \<Rightarrow>
                       (case der_DirectoryString codec (snd nameval) of
                          None \<Rightarrow> None
                        | Some v \<Rightarrow> map_option (Pair val_type) (decode_asn1_string codec v)))
       rdns"

definition common_name_values :: "(string \<times> string) list \<Rightarrow> string list" where
  "common_name_values pairs = map snd (filter (\<lambda>p. fst p = ''CommonName'') pairs)"

text \<open>
  An attribute at which \<^verbatim>\<open>_decode_subject\<close> cannot go on: its OID is in the table and
  its value is no DER DirectoryString.
\<close>

definition malformed_value :: "asn1_codec \<Rightarrow> nameval \<Rightarrow> bool" where
  "malformed_value codec nameval =
     (DN_OIDS (fst nameval) \<noteq> None \<and> der_DirectoryString codec (snd nameval) = None)"



section \<open>Properties of the identity extraction\<close>

lemma remdups_snoc: "remdups (ys @ [x]) = filter (\<lambda>y. y \<noteq> x) (remdups ys) @ [x]"
  by (induction ys) auto

lemma first_seen_snoc:
  "rev (remdups (rev xs @ [x])) = x # filter (\<lambda>y. y \<noteq> x) (rev (remdups (rev xs)))"
  by (simp add: remdups_snoc rev_filter)

lemma get_jids_loop_eq:
  "get_jids_loop parse addrs acc =
     acc @ filter (\<lambda>j. j \<notin> set acc) (rev (remdups (rev (List.map_filter parse addrs))))"
proof (induction addrs arbitrary: acc)
  case Nil
  show ?case by (simp add: List.map_filter_def)
next
  case (Cons addr addrs)
  let ?R = "rev (remdups (rev (List.map_filter parse addrs)))"
  show ?case
  proof (cases "parse addr")
    case None
    then show ?thesis using Cons.IH[of acc] by simp
  next
    case (Some j)
    have unfold: "rev (remdups (rev (List.map_filter parse (addr # addrs))))
                  = j # filter (\<lambda>y. y \<noteq> j) ?R"
      using Some by (simp add: first_seen_snoc)
    show ?thesis
    proof (cases "j \<in> set acc")
      case True
      have "filter (\<lambda>k. k \<notin> set acc) (filter (\<lambda>y. y \<noteq> j) ?R) = filter (\<lambda>k. k \<notin> set acc) ?R"
        unfolding filter_filter using True by (intro filter_cong) auto
      with True have "filter (\<lambda>k. k \<notin> set acc) (j # filter (\<lambda>y. y \<noteq> j) ?R)
                      = filter (\<lambda>k. k \<notin> set acc) ?R"
        by simp
      moreover have "get_jids_loop parse (addr # addrs) acc = get_jids_loop parse addrs acc"
        using Some True by simp
      ultimately show ?thesis using Cons.IH[of acc] unfold by simp
    next
      case False
      have "filter (\<lambda>k. k \<notin> set (acc @ [j])) ?R
            = filter (\<lambda>k. k \<notin> set acc) (filter (\<lambda>y. y \<noteq> j) ?R)"
        unfolding filter_filter by (intro filter_cong) auto
      moreover have "get_jids_loop parse (addr # addrs) acc = get_jids_loop parse addrs (acc @ [j])"
        using Some False by simp
      moreover have "filter (\<lambda>k. k \<notin> set acc) (j # filter (\<lambda>y. y \<noteq> j) ?R)
                     = j # filter (\<lambda>k. k \<notin> set acc) (filter (\<lambda>y. y \<noteq> j) ?R)"
        using False by simp
      ultimately show ?thesis using Cons.IH[of "acc @ [j]"] unfold by simp
    qed
  qed
qed

lemma get_jids_loop_Nil:
  "get_jids_loop parse addrs [] = rev (remdups (rev (List.map_filter parse addrs)))"
  by (simp add: get_jids_loop_eq)

text \<open>
  Claim C4. \<^verbatim>\<open>get_jids\<close> returns the JIDs parsed from its candidate strings, in
  first-seen order and without duplicates, candidates that do not parse being skipped.
  The candidates are the XmppAddr list followed by the DNS list when \<^verbatim>\<open>alt_names\<close>
  has one of the keys \<^verbatim>\<open>"XmppAddr"\<close>, \<^verbatim>\<open>"DNS"\<close>; otherwise the common names that
  contain neither \<^verbatim>\<open>@\<close> nor \<^verbatim>\<open>/\<close>; otherwise none. The first-seen order is that of
  \<open>remdups\<close>, which keeps last occurrences, on the reversed list.
\<close>

theorem get_jids_candidates:
  "get_jids M c =
     rev (remdups (rev (List.map_filter (JID M)
       (if has_key (alt_names c) ''XmppAddr'' \<or> has_key (alt_names c) ''DNS''
        then alt_get (alt_names c) ''XmppAddr'' @ alt_get (alt_names c) ''DNS''
        else (case common_names c of
                None \<Rightarrow> []
              | Some cns \<Rightarrow>
                  filter (\<lambda>addr. CHR ''@'' \<notin> set addr \<and> CHR ''/'' \<notin> set addr) cns)))))
   \<and> distinct (get_jids M c)"
proof -
  have eq: "get_jids M c =
     rev (remdups (rev (List.map_filter (JID M)
       (if has_key (alt_names c) ''XmppAddr'' \<or> has_key (alt_names c) ''DNS''
        then alt_get (alt_names c) ''XmppAddr'' @ alt_get (alt_names c) ''DNS''
        else (case common_names c of
                None \<Rightarrow> []
              | Some cns \<Rightarrow>
                  filter (\<lambda>addr. CHR ''@'' \<notin> set addr \<and> CHR ''/'' \<notin> set addr) cns)))))"
    by (simp add: get_jids_def get_jids_loop_Nil List.map_filter_def split: option.splits)
  show ?thesis
    by (subst (2) eq, rule conjI[OF eq]) simp
qed

theorem get_jids_candidates_witness:
  "get_jids simple_jid_module cert_A =
     [(Some ''user'', ''example.com'', None), (None, ''example.com'', None)]
   \<and> distinct (get_jids simple_jid_module cert_A)"
  using get_jids_candidates[of simple_jid_module cert_A]
  by (simp add: cert_A_def CertificateData_init_def has_key_def alt_get_def
      simple_jid_module_def simple_JID_def split_once_def)

text \<open>
  Claim C10. \<^verbatim>\<open>get_jids\<close> branches on the presence of the keys: when \<^verbatim>\<open>"XmppAddr"\<close>
  or \<^verbatim>\<open>"DNS"\<close> is a key of \<^verbatim>\<open>alt_names\<close> and both lists are empty, the result is the
  empty list whatever \<^verbatim>\<open>common_names\<close> holds.
\<close>

theorem get_jids_key_presence:
  assumes "has_key (alt_names c) ''XmppAddr'' \<or> has_key (alt_names c) ''DNS''"
    and "alt_get (alt_names c) ''XmppAddr'' = []"
    and "alt_get (alt_names c) ''DNS'' = []"
  shows "get_jids M (c\<lparr> common_names := cns \<rparr>) = []"
  using assms by (simp add: get_jids_def)

theorem get_jids_key_presence_witness:
  "get_jids simple_jid_module (cert_empty_dns\<lparr> common_names := Some [''example.com''] \<rparr>) = []
   \<and> get_jids simple_jid_module (CertificateData_init\<lparr> common_names := Some [''example.com''] \<rparr>)
       = [(None, ''example.com'', None)]"
  using get_jids_key_presence[of cert_empty_dns simple_jid_module "Some [''example.com'']"]
  by (simp add: cert_empty_dns_def CertificateData_init_def get_jids_def has_key_def alt_get_def
      simple_jid_module_def simple_JID_def split_once_def)

section \<open>Properties of the server verification\<close>

lemma common_name_loop_iff:
  "common_name_loop parse jid names = (\<exists>name \<in> set names. parse name = Some jid)"
  by (induction names) (auto split: option.splits)

lemma verify_jid_against_common_name_iff:
  "verify_jid_against_common_name M c jid =
     (\<exists>name \<in> set (case common_names c of None \<Rightarrow> [] | Some cns \<Rightarrow> cns). JID M name = Some jid)"
  by (auto simp: verify_jid_against_common_name_def common_name_loop_iff split: option.splits)

lemma verify_server_alt_names_only:
  assumes eq: "alt_names c = alt_names c'"
    and k: "\<not> (\<not> has_key (alt_names c') ''XmppAddr'' \<and> \<not> has_key (alt_names c') ''DNS''
              \<and> \<not> has_key (alt_names c') ''SRV'')"
  shows "verify_server M c server_name srv_type = verify_server M c' server_name srv_type"
  unfolding verify_server_def verify_jid_against_srv_name_def eq if_not_P[OF k]
  by (rule refl)

text \<open>
  Claim C5. \<^verbatim>\<open>verify_server\<close> uses the common-name check exactly when none of the keys
  \<^verbatim>\<open>"XmppAddr"\<close>, \<^verbatim>\<open>"DNS"\<close>, \<^verbatim>\<open>"SRV"\<close> is in \<^verbatim>\<open>alt_names\<close>. Then it
  returns true iff some common name parses to the requested server JID (a server name
  that does not parse raises \<^verbatim>\<open>JIDError\<close> before any check). When one of the keys is
  present the result does not depend on \<^verbatim>\<open>common_names\<close>.
\<close>

theorem verify_server_common_name_fallback:
  "(\<not> has_key (alt_names c) ''XmppAddr'' \<and> \<not> has_key (alt_names c) ''DNS''
      \<and> \<not> has_key (alt_names c) ''SRV'' \<longrightarrow>
      verify_server M c server_name srv_type =
        (case JID M server_name of
           None \<Rightarrow> Inl JIDError
         | Some server_jid \<Rightarrow>
             Inr (\<exists>name \<in> set (case common_names c of None \<Rightarrow> [] | Some cns \<Rightarrow> cns).
                    JID M name = Some server_jid)))
   \<and> (has_key (alt_names c) ''XmppAddr'' \<or> has_key (alt_names c) ''DNS''
      \<or> has_key (alt_names c) ''SRV'' \<longrightarrow>
      verify_server M (c\<lparr> common_names := cns' \<rparr>) server_name srv_type =
        verify_server M c server_name srv_type)"
proof (intro conjI impI)
  assume "\<not> has_key (alt_names c) ''XmppAddr'' \<and> \<not> has_key (alt_names c) ''DNS''
      \<and> \<not> has_key (alt_names c) ''SRV''"
  then show "verify_server M c server_name srv_type =
        (case JID M server_name of
           None \<Rightarrow> Inl JIDError
         | Some server_jid \<Rightarrow>
             Inr (\<exists>name \<in> set (case common_names c of None \<Rightarrow> [] | Some cns \<Rightarrow> cns).
                    JID M name = Some server_jid))"
    by (simp add: verify_server_def verify_jid_against_common_name_iff split: option.splits)
next
  assume "has_key (alt_names c) ''XmppAddr'' \<or> has_key (alt_names c) ''DNS''
      \<or> has_key (alt_names c) ''SRV''"
  then have k: "\<not> (\<not> has_key (alt_names c) ''XmppAddr'' \<and> \<not> has_key (alt_names c) ''DNS''
      \<and> \<not> has_key (alt_names c) ''SRV'')" by blast
  show "verify_server M (c\<lparr> common_names := cns' \<rparr>) server_name srv_type =
        verify_server M c server_name srv_type"
    by (rule verify_server_alt_names_only[OF _ k]) simp
qed

theorem verify_server_common_name_fallback_witness:
  "verify_server simple_jid_module cert_common_name ''example.com'' ''xmpp-client'' = Inr True
   \<and> verify_server simple_jid_module cert_common_name ''other.com'' ''xmpp-client'' = Inr False
   \<and> verify_server simple_jid_module (cert_A\<lparr> common_names := Some [''other.com''] \<rparr>)
        ''other.com'' ''xmpp-client''
      = verify_server simple_jid_module cert_A ''other.com'' ''xmpp-client''"
  using verify_server_common_name_fallback[of cert_common_name simple_jid_module
          "''example.com''" "''xmpp-client''" None]
        verify_server_common_name_fallback[of cert_common_name simple_jid_module
          "''other.com''" "''xmpp-client''" None]
        verify_server_common_name_fallback[of cert_A simple_jid_module
          "''other.com''" "''xmpp-client''" "Some [''other.com'']"]
  by (simp add: cert_common_name_def cert_A_def CertificateData_init_def has_key_def simple_jid_module_def simple_JID_def split_once_def)

text \<open>
  Claim C2. When \<^verbatim>\<open>alt_names\<close> has the key \<^verbatim>\<open>"SRV"\<close>, the DNS and XmppAddr lists
  together are empty and \<^verbatim>\<open>srv_type\<close> is non-empty, \<^verbatim>\<open>verify_server\<close> returns no
  boolean: the loop never binds \<^verbatim>\<open>jid\<close>, and reading it raises \<^verbatim>\<open>NameError\<close>
  (unless the server name itself does not parse, which raises \<^verbatim>\<open>JIDError\<close> first).
\<close>

theorem verify_server_unbound_jid:
  assumes "has_key (alt_names c) ''SRV''"
    and "alt_get (alt_names c) ''DNS'' @ alt_get (alt_names c) ''XmppAddr'' = []"
    and "srv_type \<noteq> []"
  shows "verify_server M c server_name srv_type =
           Inl (if JID M server_name = None then JIDError else NameError)"
  using assms by (auto simp: verify_server_def split: option.splits)

theorem verify_server_unbound_jid_witness:
  "verify_server simple_jid_module cert_srv_only ''example.com'' ''xmpp-client'' = Inl NameError"
  using verify_server_unbound_jid[of cert_srv_only "''xmpp-client''" simple_jid_module
          "''example.com''"]
  by (simp add: cert_srv_only_def CertificateData_init_def has_key_def alt_get_def simple_jid_module_def simple_JID_def
      split_once_def)

text \<open>
  Claim C1. The claim asks that an SRV entry \<^verbatim>\<open>_<srv_type>.<name>\<close> whose name parses
  to the requested server JID is accepted when the DNS and XmppAddr scan found no match.
  \<^verbatim>\<open>verify_server\<close> passes the loop variable \<^verbatim>\<open>jid\<close>, not \<^verbatim>\<open>server_jid\<close>, to
  \<^verbatim>\<open>verify_jid_against_srv_name\<close>: with the DNS name \<^verbatim>\<open>other.example\<close> and the SRV
  entry \<^verbatim>\<open>_xmpp-client.example.com\<close> the request for \<^verbatim>\<open>example.com\<close> is refused, and
  with the SRV entry \<^verbatim>\<open>_xmpp-client.other.example\<close> it is accepted.
\<close>

theorem verify_server_srv_uses_last_parsed_name:
  "simple_JID ''example.com'' = Some (None, ''example.com'', None)
   \<and> server_scan simple_JID (None, ''example.com'', None)
         (alt_get (alt_names cert_dns_srv) ''DNS'' @ alt_get (alt_names cert_dns_srv) ''XmppAddr'')
         None
       = (False, Some (None, ''other.example'', None))
   \<and> alt_get (alt_names cert_dns_srv) ''SRV'' = [''_xmpp-client'' @ ''.'' @ ''example.com'']
   \<and> verify_server simple_jid_module cert_dns_srv ''example.com'' ''xmpp-client'' = Inr False
   \<and> verify_server simple_jid_module cert_other_srv ''example.com'' ''xmpp-client'' = Inr True"
  by (simp add: cert_dns_srv_def CertificateData_init_def cert_other_srv_def verify_server_def verify_jid_against_srv_name_def
      has_key_def alt_get_def simple_jid_module_def simple_JID_def split_once_def)

section \<open>Properties of the client verification\<close>

text \<open>
  Claim C7. A \<^verbatim>\<open>client_jid\<close> that is among the candidates with a local part is
  returned itself, whatever \<^verbatim>\<open>domains\<close> is and wherever it stands in the list.
\<close>

theorem verify_client_explicit_jid:
  assumes "client_jid \<in> set (filter (\<lambda>jid. truthy (jid_local M jid)) (get_jids M c))"
  shows "verify_client M c (Some client_jid) domains = Result_JID client_jid"
proof -
  let ?jids = "filter (\<lambda>jid. truthy (jid_local M jid)) (get_jids M c)"
  obtain first rest where fr: "?jids = first # rest"
    using assms by (cases ?jids) auto
  have mem: "client_jid \<in> set (first # rest)"
    using assms unfolding fr .
  show ?thesis
    unfolding verify_client_def Let_def fr using mem by simp
qed

theorem verify_client_explicit_jid_witness:
  "get_jids simple_jid_module cert_two_clients = [(Some ''b'', ''x'', None), (Some ''a'', ''x'', None)]
   \<and> verify_client simple_jid_module cert_two_clients (Some (Some ''a'', ''x'', None)) None
       = Result_JID (Some ''a'', ''x'', None)"
proof -
  have g: "get_jids simple_jid_module cert_two_clients
             = [(Some ''b'', ''x'', None), (Some ''a'', ''x'', None)]"
    by (simp add: cert_two_clients_def CertificateData_init_def get_jids_def has_key_def alt_get_def simple_jid_module_def
        simple_JID_def split_once_def)
  have m: "(Some ''a'', ''x'', None) \<in> set (filter (\<lambda>jid. truthy (jid_local simple_jid_module jid))
                (get_jids simple_jid_module cert_two_clients))"
    unfolding g by (simp add: simple_jid_module_def truthy_def)
  show ?thesis using g verify_client_explicit_jid[OF m, of None] by simp
qed

lemma domain_loop_iff:
  "domain_loop M jid ds = (\<exists>d \<in> set ds. are_domains_equal M (jid_domain M jid) d)"
  by (induction ds) auto

lemma client_loop_find:
  "client_loop M jids ds =
     (case find (\<lambda>jid. \<exists>d \<in> set ds. are_domains_equal M (jid_domain M jid) d) jids of
        None \<Rightarrow> Result_None
      | Some jid \<Rightarrow> Result_JID jid)"
  by (induction jids) (simp_all add: domain_loop_iff)

lemma client_loop_mem: "client_loop M jids ds = Result_JID j \<Longrightarrow> j \<in> set jids"
  by (induction jids) (auto split: if_splits)

text \<open>
  Claim C8. \<^verbatim>\<open>verify_client\<close> considers only the JIDs of \<^verbatim>\<open>get_jids\<close> with a
  non-empty local part: with none of them it returns \<^verbatim>\<open>False\<close> whatever the
  arguments, and a JID it returns is one of them. With \<^verbatim>\<open>domains\<close> given and no
  \<^verbatim>\<open>client_jid\<close> among the candidates, it returns the first candidate whose domain
  \<^verbatim>\<open>are_domains_equal\<close> relates to some entry of \<^verbatim>\<open>domains\<close>, and \<^verbatim>\<open>None\<close> when
  there is none.
\<close>

theorem verify_client_candidates:
  "(filter (\<lambda>jid. truthy (jid_local M jid)) (get_jids M c) = [] \<longrightarrow>
      verify_client M c client_jid domains = Result_False)
   \<and> (verify_client M c client_jid domains = Result_JID j \<longrightarrow>
        j \<in> set (get_jids M c) \<and> truthy (jid_local M j))
   \<and> (filter (\<lambda>jid. truthy (jid_local M jid)) (get_jids M c) \<noteq> [] \<and>
      (\<forall>cj. client_jid = Some cj \<longrightarrow>
         cj \<notin> set (filter (\<lambda>jid. truthy (jid_local M jid)) (get_jids M c))) \<longrightarrow>
      verify_client M c client_jid (Some ds) =
        (case find (\<lambda>jid. \<exists>d \<in> set ds. are_domains_equal M (jid_domain M jid) d)
                (filter (\<lambda>jid. truthy (jid_local M jid)) (get_jids M c)) of
           None \<Rightarrow> Result_None
         | Some jid \<Rightarrow> Result_JID jid))"
proof (intro conjI impI)
  let ?jids = "filter (\<lambda>jid. truthy (jid_local M jid)) (get_jids M c)"
  show "verify_client M c client_jid domains = Result_False" if "?jids = []"
    using that by (simp add: verify_client_def)
  show "j \<in> set (get_jids M c)" "truthy (jid_local M j)"
    if r: "verify_client M c client_jid domains = Result_JID j"
  proof -
    have "j \<in> set ?jids"
    proof (cases ?jids)
      case Nil
      then show ?thesis using r by (simp add: verify_client_def)
    next
      case (Cons first rest)
      then show ?thesis using r client_loop_mem[of M ?jids _ j]
        by (auto simp: verify_client_def Let_def split: option.splits if_splits)
    qed
    then show "j \<in> set (get_jids M c)" "truthy (jid_local M j)" by auto
  qed
  show "verify_client M c client_jid (Some ds) =
        (case find (\<lambda>jid. \<exists>d \<in> set ds. are_domains_equal M (jid_domain M jid) d) ?jids of
           None \<Rightarrow> Result_None
         | Some jid \<Rightarrow> Result_JID jid)"
    if h: "?jids \<noteq> [] \<and> (\<forall>cj. client_jid = Some cj \<longrightarrow> cj \<notin> set ?jids)"
  proof -
    obtain first rest where fr: "?jids = first # rest" using h by (cases ?jids) auto
    have "verify_client M c client_jid (Some ds) = client_loop M ?jids ds"
      using h fr by (cases client_jid) (simp_all add: verify_client_def Let_def)
    then show ?thesis by (simp add: client_loop_find)
  qed
qed

theorem verify_client_candidates_witness:
  "verify_client simple_jid_module cert_common_name None (Some [''example.com'']) = Result_False
   \<and> verify_client simple_jid_module cert_mixed None (Some [''x''])
         = Result_JID (Some ''a'', ''x'', None)
   \<and> (Some ''a'', ''x'', None) \<in> set (get_jids simple_jid_module cert_mixed)
   \<and> truthy (jid_local simple_jid_module (Some ''a'', ''x'', None))
   \<and> verify_client simple_jid_module cert_mixed (Some (Some ''c'', ''x'', None)) (Some [''z''])
         = Result_None"
proof -
  let ?M = simple_jid_module
  let ?a = "(Some ''a'', ''x'', None) :: simple_jid"
  let ?b = "(Some ''b'', ''y'', None) :: simple_jid"
  let ?c = "(Some ''c'', ''x'', None) :: simple_jid"
  have g1: "get_jids ?M cert_common_name = [(None, ''example.com'', None)]"
    by (simp add: cert_common_name_def cert_mixed_def CertificateData_init_def get_jids_def has_key_def alt_get_def simple_jid_module_def
        simple_JID_def split_once_def)
  have g2: "get_jids ?M cert_mixed = [?b, ?a, (None, ''x'', None)]"
    by (simp add: cert_common_name_def cert_mixed_def CertificateData_init_def get_jids_def has_key_def alt_get_def simple_jid_module_def
        simple_JID_def split_once_def)
  have f1: "filter (\<lambda>jid. truthy (jid_local ?M jid)) (get_jids ?M cert_common_name) = []"
    unfolding g1 by (simp add: simple_jid_module_def truthy_def)
  have f2: "filter (\<lambda>jid. truthy (jid_local ?M jid)) (get_jids ?M cert_mixed) = [?b, ?a]"
    unfolding g2 by (simp add: simple_jid_module_def truthy_def)
  have r1: "verify_client ?M cert_common_name None (Some [''example.com'']) = Result_False"
    using verify_client_candidates[of ?M cert_common_name None "Some [''example.com'']" ?a "[]",
        THEN conjunct1] f1 by (rule mp)
  have find_x: "find (\<lambda>jid. \<exists>d \<in> set [''x'']. are_domains_equal ?M (jid_domain ?M jid) d) [?b, ?a]
                  = Some ?a"
    by (simp add: simple_jid_module_def)
  have find_z: "find (\<lambda>jid. \<exists>d \<in> set [''z'']. are_domains_equal ?M (jid_domain ?M jid) d) [?b, ?a]
                  = None"
    by (simp add: simple_jid_module_def)
  have pre2: "filter (\<lambda>jid. truthy (jid_local ?M jid)) (get_jids ?M cert_mixed) \<noteq> [] \<and>
      (\<forall>cj. (None :: simple_jid option) = Some cj \<longrightarrow>
         cj \<notin> set (filter (\<lambda>jid. truthy (jid_local ?M jid)) (get_jids ?M cert_mixed)))"
    unfolding f2 by simp
  have r2: "verify_client ?M cert_mixed None (Some [''x'']) = Result_JID ?a"
    using verify_client_candidates[of ?M cert_mixed None "Some [''x'']" ?a "[''x'']",
        THEN conjunct2, THEN conjunct2, THEN mp, OF pre2]
    unfolding f2 find_x by simp
  have r3: "?a \<in> set (get_jids ?M cert_mixed) \<and> truthy (jid_local ?M ?a)"
    using verify_client_candidates[of ?M cert_mixed None "Some [''x'']" ?a "[''x'']",
        THEN conjunct2, THEN conjunct1, THEN mp, OF r2] .
  have pre4: "filter (\<lambda>jid. truthy (jid_local ?M jid)) (get_jids ?M cert_mixed) \<noteq> [] \<and>
      (\<forall>cj. Some ?c = Some cj \<longrightarrow>
         cj \<notin> set (filter (\<lambda>jid. truthy (jid_local ?M jid)) (get_jids ?M cert_mixed)))"
    unfolding f2 by simp
  have r4: "verify_client ?M cert_mixed (Some ?c) (Some [''z'']) = Result_None"
    using verify_client_candidates[of ?M cert_mixed "Some ?c" "Some [''z'']" ?a "[''z'']",
        THEN conjunct2, THEN conjunct2, THEN mp, OF pre4]
    unfolding f2 find_z by simp
  show ?thesis using r1 r2 r3 r4 by blast
qed

section \<open>No certificate\<close>

text \<open>
  Claim C6, as stated, fails for a server name that is no JID: \<^verbatim>\<open>verify_server\<close> builds
  \<^verbatim>\<open>JID(server_name)\<close> first, and the \<^verbatim>\<open>JIDError\<close> propagates.
\<close>

theorem no_certificate_malformed_name_counterexample:
  "from_ssl_socket toy_codec no_certificate_socket = Inr CertificateData_init
   \<and> verify_server simple_jid_module CertificateData_init '''' ''xmpp-client'' = Inl JIDError"
  by (simp add: from_ssl_socket_def no_certificate_socket_def verify_server_def
      simple_jid_module_def simple_JID_def split_once_def)

text \<open>
  Claim C6, amended. When the socket has no peer certificate, \<^verbatim>\<open>from_ssl_socket\<close>
  returns the initial CertificateData: not validated, no subject name, no common names,
  no alt names. On it \<^verbatim>\<open>get_jids\<close> returns the empty list, \<^verbatim>\<open>verify_client\<close> returns
  \<^verbatim>\<open>False\<close>, and \<^verbatim>\<open>verify_server\<close> returns false for every server name that parses
  as a JID and raises \<^verbatim>\<open>JIDError\<close> for one that does not.
\<close>

theorem no_certificate:
  assumes "peercert_der sock = None"
  shows "from_ssl_socket codec sock = Inr CertificateData_init
     \<and> \<not> validated CertificateData_init
     \<and> subject_name CertificateData_init = None
     \<and> common_names CertificateData_init = None
     \<and> alt_names CertificateData_init = Map.empty
     \<and> get_jids M CertificateData_init = []
     \<and> verify_server M CertificateData_init server_name srv_type =
         (case JID M server_name of None \<Rightarrow> Inl JIDError | Some server_jid \<Rightarrow> Inr False)
     \<and> verify_client M CertificateData_init client_jid domains = Result_False"
  using assms
  by (simp add: from_ssl_socket_def CertificateData_init_def get_jids_def has_key_def
      verify_server_def verify_jid_against_common_name_def verify_client_def
      split: option.splits)

theorem no_certificate_witness:
  "from_ssl_socket toy_codec no_certificate_socket = Inr CertificateData_init
   \<and> get_jids simple_jid_module CertificateData_init = []
   \<and> verify_server simple_jid_module CertificateData_init ''example.com'' ''xmpp-client''
        = Inr False
   \<and> verify_client simple_jid_module CertificateData_init None None = Result_False"
proof -
  have h: "peercert_der no_certificate_socket = None"
    by (simp add: no_certificate_socket_def)
  have p: "JID simple_jid_module ''example.com'' = Some (None, ''example.com'', None)"
    by (simp add: simple_jid_module_def simple_JID_def split_once_def)
  from no_certificate[OF h, of toy_codec simple_jid_module "''example.com''" "''xmpp-client''"
      None None]
  show ?thesis unfolding p by simp
qed

section \<open>Properties of the ASN.1 decoder\<close>

lemma nameval_loop_recognized:
  assumes "\<forall>nameval \<in> set rdns.
             DN_OIDS (fst nameval) \<noteq> None \<longrightarrow> der_DirectoryString codec (snd nameval) \<noteq> None"
  shows "nameval_loop codec rdns cns acc =
           Inr (cns @ common_name_values (recognized_pairs codec rdns),
                acc @ recognized_pairs codec rdns)"
  using assms
proof (induction rdns arbitrary: cns acc)
  case Nil
  show ?case by (simp add: recognized_pairs_def common_name_values_def)
next
  case (Cons nameval rest)
  have IH: "nameval_loop codec rest cns' acc' =
           Inr (cns' @ common_name_values (recognized_pairs codec rest),
                acc' @ recognized_pairs codec rest)" for cns' acc'
    using Cons by simp
  show ?case
  proof (cases "DN_OIDS (fst nameval)")
    case None
    then show ?thesis by (simp add: IH recognized_pairs_def)
  next
    case (Some val_type)
    then obtain v where v: "der_DirectoryString codec (snd nameval) = Some v"
      using Cons.prems by auto
    show ?thesis
    proof (cases "decode_asn1_string codec v")
      case None
      then show ?thesis using Some v by (simp add: IH recognized_pairs_def)
    next
      case (Some str)
      then show ?thesis using \<open>DN_OIDS (fst nameval) = Some val_type\<close> v
        by (simp add: IH recognized_pairs_def common_name_values_def)
    qed
  qed
qed

lemma common_name_values_append:
  "common_name_values (xs @ ys) = common_name_values xs @ common_name_values ys"
  by (simp add: common_name_values_def)

lemma rdns_loop_recognized:
  assumes "\<forall>rdns \<in> set rdnss. \<forall>nameval \<in> set rdns.
             DN_OIDS (fst nameval) \<noteq> None \<longrightarrow> der_DirectoryString codec (snd nameval) \<noteq> None"
  shows "rdns_loop codec rdnss cns sname =
           Inr (cns @ common_name_values (concat (map (recognized_pairs codec) rdnss)),
                sname @ map (recognized_pairs codec) rdnss)"
  using assms
proof (induction rdnss arbitrary: cns sname)
  case Nil
  show ?case by (simp add: common_name_values_def)
next
  case (Cons rdns rest)
  have "nameval_loop codec rdns cns [] =
          Inr (cns @ common_name_values (recognized_pairs codec rdns), recognized_pairs codec rdns)"
    using nameval_loop_recognized[of rdns codec cns "[]"] Cons.prems by simp
  moreover have "rdns_loop codec rest cns' sname' =
           Inr (cns' @ common_name_values (concat (map (recognized_pairs codec) rest)),
                sname' @ map (recognized_pairs codec) rest)" for cns' sname'
    using Cons by simp
  ultimately show ?case by (simp add: common_name_values_append)
qed

lemma rdnss_loop_recognized:
  assumes "\<forall>rdnss \<in> set subj. \<forall>rdns \<in> set rdnss. \<forall>nameval \<in> set rdns.
             DN_OIDS (fst nameval) \<noteq> None \<longrightarrow> der_DirectoryString codec (snd nameval) \<noteq> None"
  shows "rdnss_loop codec subj cns sname =
           Inr (cns @ common_name_values (concat (map (recognized_pairs codec) (concat subj))),
                sname @ map (recognized_pairs codec) (concat subj))"
  using assms
proof (induction subj arbitrary: cns sname)
  case Nil
  show ?case by (simp add: common_name_values_def)
next
  case (Cons rdnss rest)
  have "rdns_loop codec rdnss cns sname =
           Inr (cns @ common_name_values (concat (map (recognized_pairs codec) rdnss)),
                sname @ map (recognized_pairs codec) rdnss)"
    using rdns_loop_recognized[of rdnss codec cns sname] Cons.prems by simp
  moreover have "rdnss_loop codec rest cns' sname' =
           Inr (cns' @ common_name_values (concat (map (recognized_pairs codec) (concat rest))),
                sname' @ map (recognized_pairs codec) (concat rest))" for cns' sname'
    using Cons by simp
  ultimately show ?case by (simp add: common_name_values_append)
qed

lemma nameval_loop_drop_unknown:
  "nameval_loop codec (filter (\<lambda>nameval. DN_OIDS (fst nameval) \<noteq> None) rdns) cns acc =
     nameval_loop codec rdns cns acc"
  by (induction rdns arbitrary: cns acc) (auto split: option.splits)

lemma rdns_loop_drop_unknown:
  "rdns_loop codec (map (filter (\<lambda>nameval. DN_OIDS (fst nameval) \<noteq> None)) rdnss) cns sname =
     rdns_loop codec rdnss cns sname"
  by (induction rdnss arbitrary: cns sname)
    (simp_all add: nameval_loop_drop_unknown del: not_None_eq split: sum.splits prod.splits)

lemma rdnss_loop_drop_unknown:
  "rdnss_loop codec
        (map (map (filter (\<lambda>nameval. DN_OIDS (fst nameval) \<noteq> None))) subj) cns sname =
     rdnss_loop codec subj cns sname"
  by (induction subj arbitrary: cns sname)
    (simp_all add: rdns_loop_drop_unknown del: not_None_eq split: sum.splits prod.splits)

lemma nameval_loop_malformed:
  assumes "\<exists>nameval \<in> set rdns. malformed_value codec nameval"
  shows "nameval_loop codec rdns cns acc = Inl PyAsn1Error"
  using assms
proof (induction rdns arbitrary: cns acc)
  case Nil
  then show ?case by simp
next
  case (Cons nameval rest)
  show ?case
  proof (cases "malformed_value codec nameval")
    case True
    then show ?thesis by (auto simp: malformed_value_def)
  next
    case False
    then have "\<exists>nv \<in> set rest. malformed_value codec nv" using Cons.prems by auto
    then have IH: "nameval_loop codec rest cns' acc' = Inl PyAsn1Error" for cns' acc'
      using Cons.IH by blast
    show ?thesis by (simp add: IH split: option.splits)
  qed
qed

lemma well_formed_values:
  "\<not> (\<exists>nameval \<in> set rdns. malformed_value codec nameval) \<Longrightarrow>
     \<forall>nameval \<in> set rdns.
       DN_OIDS (fst nameval) \<noteq> None \<longrightarrow> der_DirectoryString codec (snd nameval) \<noteq> None"
  by (auto simp: malformed_value_def)

lemma rdns_loop_malformed:
  assumes "\<exists>rdns \<in> set rdnss. \<exists>nameval \<in> set rdns. malformed_value codec nameval"
  shows "rdns_loop codec rdnss cns sname = Inl PyAsn1Error"
  using assms
proof (induction rdnss arbitrary: cns sname)
  case Nil
  then show ?case by simp
next
  case (Cons rdns rest)
  show ?case
  proof (cases "\<exists>nameval \<in> set rdns. malformed_value codec nameval")
    case True
    then show ?thesis by (simp add: nameval_loop_malformed)
  next
    case False
    then have "\<exists>r \<in> set rest. \<exists>nameval \<in> set r. malformed_value codec nameval"
      using Cons.prems by auto
    then have IH: "rdns_loop codec rest cns' sname' = Inl PyAsn1Error" for cns' sname'
      using Cons.IH by blast
    have "nameval_loop codec rdns cns [] =
            Inr (cns @ common_name_values (recognized_pairs codec rdns),
                 [] @ recognized_pairs codec rdns)"
      by (rule nameval_loop_recognized[OF well_formed_values[OF False]])
    then show ?thesis by (simp add: IH)
  qed
qed

lemma rdnss_loop_malformed:
  assumes "\<exists>rdnss \<in> set subj. \<exists>rdns \<in> set rdnss. \<exists>nameval \<in> set rdns.
             malformed_value codec nameval"
  shows "rdnss_loop codec subj cns sname = Inl PyAsn1Error"
  using assms
proof (induction subj arbitrary: cns sname)
  case Nil
  then show ?case by simp
next
  case (Cons rdnss rest)
  show ?case
  proof (cases "\<exists>rdns \<in> set rdnss. \<exists>nameval \<in> set rdns. malformed_value codec nameval")
    case True
    then show ?thesis by (simp add: rdns_loop_malformed)
  next
    case False
    then have "\<exists>r \<in> set rest. \<exists>rdns \<in> set r. \<exists>nameval \<in> set rdns.
                 malformed_value codec nameval"
      using Cons.prems by auto
    then have IH: "rdnss_loop codec rest cns' sname' = Inl PyAsn1Error" for cns' sname'
      using Cons.IH by blast
    have "\<forall>rdns \<in> set rdnss. \<forall>nameval \<in> set rdns.
            DN_OIDS (fst nameval) \<noteq> None \<longrightarrow> der_DirectoryString codec (snd nameval) \<noteq> None"
    proof (rule ballI)
      fix rdns
      assume "rdns \<in> set rdnss"
      then have "\<not> (\<exists>nameval \<in> set rdns. malformed_value codec nameval)"
        using False by blast
      then show "\<forall>nameval \<in> set rdns.
            DN_OIDS (fst nameval) \<noteq> None \<longrightarrow> der_DirectoryString codec (snd nameval) \<noteq> None"
        by (rule well_formed_values)
    qed
    then have "rdns_loop codec rdnss cns sname =
           Inr (cns @ common_name_values (concat (map (recognized_pairs codec) rdnss)),
                sname @ map (recognized_pairs codec) rdnss)"
      by (rule rdns_loop_recognized)
    then show ?thesis by (simp add: IH)
  qed
qed

text \<open>
  Claim C9, as stated, fails for a recognized attribute whose value is no
  DirectoryString: \<^verbatim>\<open>der_decoder.decode(value, asn1Spec = DirectoryString())\<close> stands
  outside the \<^verbatim>\<open>try\<close>, which catches \<^verbatim>\<open>UnicodeError\<close> only. A subject with an
  e-mail address (an OID outside the table) and a CommonName encoded as an IA5String
  aborts \<^verbatim>\<open>_decode_subject\<close> and with it \<^verbatim>\<open>from_der_data\<close>.
\<close>

theorem decode_subject_not_directory_string_counterexample:
  "DN_OIDS [1, 2, 840, 113549, 1, 9, 1] = None
   \<and> DN_OIDS [2, 5, 4, 3] = Some ''CommonName''
   \<and> decode_subject toy_codec subject_ia5 CertificateData_init = Inl PyAsn1Error
   \<and> from_der_data example_codec [0x31] = Inl PyAsn1Error"
  by (simp add: DN_OIDS_def decode_subject_def subject_ia5_def certificate_ia5_def
      from_der_data_def example_codec_def toy_codec_def toy_der_def)

text \<open>
  Claim C9, amended. \<^verbatim>\<open>_decode_subject\<close> raises \<^verbatim>\<open>PyAsn1Error\<close> exactly when some
  attribute with an OID of the table has a value that is no DER DirectoryString, and
  \<^verbatim>\<open>from_der_data\<close> then raises it too. Otherwise it returns: \<^verbatim>\<open>subject_name\<close> holds,
  for each RDN in order, the recognized pairs whose text decodes, in their order,
  \<^verbatim>\<open>common_names\<close> the CommonName values among them, and \<^verbatim>\<open>from_der_data\<close> goes on
  to the validity and the extensions. Neither an OID outside the table nor a value
  whose text does not decode aborts anything: removing the attributes with an unknown
  OID leaves the result unchanged, and a value whose text does not decode is left out
  of the pairs.
\<close>

theorem decode_subject_outcome:
  "decode_subject codec subj c =
     (if \<exists>rdnss \<in> set subj. \<exists>rdns \<in> set rdnss. \<exists>nameval \<in> set rdns.
           malformed_value codec nameval
      then Inl PyAsn1Error
      else Inr (c\<lparr> common_names :=
                  Some (common_name_values (concat (map (recognized_pairs codec) (concat subj)))),
                subject_name := Some (map (recognized_pairs codec) (concat subj)) \<rparr>))
   \<and> decode_subject codec
         (map (map (filter (\<lambda>nameval. DN_OIDS (fst nameval) \<noteq> None))) subj) c =
       decode_subject codec subj c
   \<and> (der_Certificate codec data = Some tbs_cert \<longrightarrow>
        from_der_data codec data =
          (if \<exists>rdnss \<in> set (subject tbs_cert). \<exists>rdns \<in> set rdnss. \<exists>nameval \<in> set rdns.
                malformed_value codec nameval
           then Inl PyAsn1Error
           else (case decode_validity codec (notAfter tbs_cert)
                        (CertificateData_init
                           \<lparr> common_names :=
                               Some (common_name_values
                                 (concat (map (recognized_pairs codec)
                                   (concat (subject tbs_cert))))),
                             subject_name :=
                               Some (map (recognized_pairs codec)
                                 (concat (subject tbs_cert))) \<rparr>) of
                   Inl e \<Rightarrow> Inl e
                 | Inr c2 \<Rightarrow> extension_loop codec (extensions tbs_cert) c2)))"
proof -
  have main: "decode_subject codec s c' =
     (if \<exists>rdnss \<in> set s. \<exists>rdns \<in> set rdnss. \<exists>nameval \<in> set rdns.
           malformed_value codec nameval
      then Inl PyAsn1Error
      else Inr (c'\<lparr> common_names :=
                  Some (common_name_values (concat (map (recognized_pairs codec) (concat s)))),
                subject_name := Some (map (recognized_pairs codec) (concat s)) \<rparr>))" for s c'
  proof (cases "\<exists>rdnss \<in> set s. \<exists>rdns \<in> set rdnss. \<exists>nameval \<in> set rdns.
           malformed_value codec nameval")
    case True
    then show ?thesis by (simp add: decode_subject_def rdnss_loop_malformed)
  next
    case False
    have "\<forall>rdnss \<in> set s. \<forall>rdns \<in> set rdnss. \<forall>nameval \<in> set rdns.
      DN_OIDS (fst nameval) \<noteq> None \<longrightarrow> der_DirectoryString codec (snd nameval) \<noteq> None"
    proof (intro ballI)
      fix rdnss rdns nameval
      assume mem: "rdnss \<in> set s" "rdns \<in> set rdnss" "nameval \<in> set rdns"
      then have "\<not> (\<exists>nv \<in> set rdns. malformed_value codec nv)"
        using False by blast
      from well_formed_values[OF this] mem(3)
      show "DN_OIDS (fst nameval) \<noteq> None \<longrightarrow> der_DirectoryString codec (snd nameval) \<noteq> None"
        by (rule bspec)
    qed
    then have "rdnss_loop codec s [] [] =
           Inr ([] @ common_name_values (concat (map (recognized_pairs codec) (concat s))),
                [] @ map (recognized_pairs codec) (concat s))"
      by (rule rdnss_loop_recognized)
    then show ?thesis using False by (simp add: decode_subject_def)
  qed
  have drop: "decode_subject codec
         (map (map (filter (\<lambda>nameval. DN_OIDS (fst nameval) \<noteq> None))) subj) c =
       decode_subject codec subj c"
    by (simp add: decode_subject_def rdnss_loop_drop_unknown del: not_None_eq)
  have cert: "from_der_data codec data =
          (if \<exists>rdnss \<in> set (subject tbs_cert). \<exists>rdns \<in> set rdnss. \<exists>nameval \<in> set rdns.
                malformed_value codec nameval
           then Inl PyAsn1Error
           else (case decode_validity codec (notAfter tbs_cert)
                        (CertificateData_init
                           \<lparr> common_names :=
                               Some (common_name_values
                                 (concat (map (recognized_pairs codec)
                                   (concat (subject tbs_cert))))),
                             subject_name :=
                               Some (map (recognized_pairs codec)
                                 (concat (subject tbs_cert))) \<rparr>) of
                   Inl e \<Rightarrow> Inl e
                 | Inr c2 \<Rightarrow> extension_loop codec (extensions tbs_cert) c2))"
    if d: "der_Certificate codec data = Some tbs_cert"
  proof (cases "\<exists>rdnss \<in> set (subject tbs_cert). \<exists>rdns \<in> set rdnss. \<exists>nameval \<in> set rdns.
                malformed_value codec nameval")
    case True
    then have "decode_subject codec (subject tbs_cert) CertificateData_init = Inl PyAsn1Error"
      using main[of "subject tbs_cert" CertificateData_init] by simp
    then show ?thesis using True d by (simp add: from_der_data_def)
  next
    case False
    then have "decode_subject codec (subject tbs_cert) CertificateData_init =
        Inr (CertificateData_init
               \<lparr> common_names :=
                   Some (common_name_values
                     (concat (map (recognized_pairs codec) (concat (subject tbs_cert))))),
                 subject_name :=
                   Some (map (recognized_pairs codec) (concat (subject tbs_cert))) \<rparr>)"
      using main[of "subject tbs_cert" CertificateData_init] by simp
    then show ?thesis using False d by (simp add: from_der_data_def)
  qed
  show ?thesis using main[of subj c] drop cert by blast
qed

theorem decode_subject_outcome_witness:
  "decode_subject toy_codec subject_example CertificateData_init =
     Inr (CertificateData_init
            \<lparr> common_names := Some [''a.b''],
              subject_name := Some [[(''CountryName'', ''PL'')], [(''CommonName'', ''a.b'')]] \<rparr>)
   \<and> decode_subject toy_codec
        [[ [([2, 5, 4, 6], [19, 2, 0x50, 0x4C])],
           [([2, 5, 4, 10], [12, 1, 0xFF]), ([2, 5, 4, 3], [12, 3, 0x61, 0x2E, 0x62])] ]]
        CertificateData_init
      = decode_subject toy_codec subject_example CertificateData_init
   \<and> decode_subject toy_codec subject_ia5 CertificateData_init = Inl PyAsn1Error
   \<and> from_der_data example_codec [0x30] =
       Inr \<lparr> validated = False,
             subject_name = Some [[(''CountryName'', ''PL'')], [(''CommonName'', ''a.b'')]],
             not_after = Some \<lparr> dt_year = 2030, dt_month = 1, dt_day = 1,
                                dt_hour = 0, dt_minute = 0, dt_second = 0 \<rparr>,
             common_names = Some [''a.b''],
             alt_names = Map.empty \<rparr>
   \<and> from_der_data example_codec [0x31] = Inl PyAsn1Error"
proof -
  have dir: "der_DirectoryString example_codec = der_DirectoryString toy_codec"
    by (simp add: example_codec_def)
  have u8: "decode_utf8 example_codec = decode_utf8 toy_codec"
    by (simp add: example_codec_def)
  have u16: "decode_utf16_be example_codec = decode_utf16_be toy_codec"
    by (simp add: example_codec_def)
  have das: "decode_asn1_string example_codec = decode_asn1_string toy_codec"
    by (rule ext) (simp add: decode_asn1_string_def u8 u16)
  have rp: "recognized_pairs example_codec = recognized_pairs toy_codec"
    by (rule ext) (unfold recognized_pairs_def dir das, rule refl)
  have mv: "malformed_value example_codec = malformed_value toy_codec"
    by (rule ext) (simp add: malformed_value_def dir)
  have ok: "\<not> (\<exists>rdnss \<in> set subject_example. \<exists>rdns \<in> set rdnss. \<exists>nameval \<in> set rdns.
               malformed_value toy_codec nameval)"
    by (simp add: subject_example_def malformed_value_def DN_OIDS_def toy_codec_def toy_der_def)
  have bad: "\<exists>rdnss \<in> set subject_ia5. \<exists>rdns \<in> set rdnss. \<exists>nameval \<in> set rdns.
               malformed_value toy_codec nameval"
    by (simp add: subject_ia5_def malformed_value_def DN_OIDS_def toy_codec_def toy_der_def)
  have p: "map (recognized_pairs toy_codec) (concat subject_example)
             = [[(''CountryName'', ''PL'')], [(''CommonName'', ''a.b'')]]"
    by (simp add: subject_example_def recognized_pairs_def List.map_filter_def DN_OIDS_def
        toy_codec_def toy_der_def toy_utf8_def decode_asn1_string_def char_of_def bit_Suc_0_iff)
  have f: "map (map (filter (\<lambda>nameval. DN_OIDS (fst nameval) \<noteq> None))) subject_example
             = [[ [([2, 5, 4, 6], [19, 2, 0x50, 0x4C])],
                  [([2, 5, 4, 10], [12, 1, 0xFF]), ([2, 5, 4, 3], [12, 3, 0x61, 0x2E, 0x62])] ]]"
    by (simp add: subject_example_def DN_OIDS_def)
  have c30: "der_Certificate example_codec [0x30] = Some certificate_example"
    by (simp add: example_codec_def)
  have c31: "der_Certificate example_codec [0x31] = Some certificate_ia5"
    by (simp add: example_codec_def)
  note T1 = decode_subject_outcome[of toy_codec subject_example CertificateData_init
      "[0x30]" certificate_example]
  note T2 = decode_subject_outcome[of toy_codec subject_ia5 CertificateData_init
      "[0x31]" certificate_ia5]
  note T3 = decode_subject_outcome[of example_codec subject_example CertificateData_init
      "[0x30]" certificate_example, THEN conjunct2, THEN conjunct2, THEN mp, OF c30]
  note T4 = decode_subject_outcome[of example_codec subject_ia5 CertificateData_init
      "[0x31]" certificate_ia5, THEN conjunct2, THEN conjunct2, THEN mp, OF c31]
  have r1: "decode_subject toy_codec subject_example CertificateData_init =
     Inr (CertificateData_init
            \<lparr> common_names := Some [''a.b''],
              subject_name := Some [[(''CountryName'', ''PL'')], [(''CommonName'', ''a.b'')]] \<rparr>)"
    using T1[THEN conjunct1] ok p by (simp add: common_name_values_def)
  have r2: "decode_subject toy_codec
        [[ [([2, 5, 4, 6], [19, 2, 0x50, 0x4C])],
           [([2, 5, 4, 10], [12, 1, 0xFF]), ([2, 5, 4, 3], [12, 3, 0x61, 0x2E, 0x62])] ]]
        CertificateData_init
      = decode_subject toy_codec subject_example CertificateData_init"
    using T1[THEN conjunct2, THEN conjunct1] unfolding f .
  have r3: "decode_subject toy_codec subject_ia5 CertificateData_init = Inl PyAsn1Error"
    using T2[THEN conjunct1] bad by simp
  have r4: "from_der_data example_codec [0x30] =
       Inr \<lparr> validated = False,
             subject_name = Some [[(''CountryName'', ''PL'')], [(''CommonName'', ''a.b'')]],
             not_after = Some \<lparr> dt_year = 2030, dt_month = 1, dt_day = 1,
                                dt_hour = 0, dt_minute = 0, dt_second = 0 \<rparr>,
             common_names = Some [''a.b''],
             alt_names = Map.empty \<rparr>"
    using T3 ok p unfolding mv rp
    by (simp add: certificate_example_def common_name_values_def decode_validity_def
        example_codec_def CertificateData_init_def)
  have r5: "from_der_data example_codec [0x31] = Inl PyAsn1Error"
    using T4 bad unfolding mv by (simp add: certificate_ia5_def)
  show ?thesis using r1 r2 r3 r4 r5 by (intro conjI)
qed
















end
